theory Spec2Isabelle
  imports Complex_Main
begin

section \<open>Messages\<close>

text \<open>
  The ROS message types that \<^verbatim>\<open>dbw_node.py\<close> reads and writes, with the fields the node
  touches. A Python float that a message carries is a real number. The fields \<^verbatim>\<open>x\<close>, \<^verbatim>\<open>y\<close>, \<^verbatim>\<open>z\<close>,
  \<^verbatim>\<open>w\<close> carry the name of their message type as a prefix, because a record field is a
  global function in HOL.
\<close>

record Point =
  point_x :: real
  point_y :: real
  point_z :: real

record Quaternion =
  quat_x :: real
  quat_y :: real
  quat_z :: real
  quat_w :: real

record Vector3 =
  vec_x :: real
  vec_y :: real
  vec_z :: real

record Twist =
  twist_linear :: Vector3
  twist_angular :: Vector3

record Pose =
  position :: Point
  orientation :: Quaternion

text \<open>\<^verbatim>\<open>wpt.pose.pose\<close> of a \<^verbatim>\<open>styx_msgs/Waypoint\<close>: the stamped pose without its header.\<close>

record Waypoint =
  pose :: Pose

text \<open>
  The three actuation messages. \<^verbatim>\<open>publish\<close> always sets \<^verbatim>\<open>enable = True\<close> and a constant
  command type, so a command is its channel and its value.
\<close>

datatype Cmd = ThrottleCmd real | SteeringCmd real | BrakeCmd real

datatype py_error = AttributeError | TypeError | IndexError | ZeroDivisionError | LinAlgError

section \<open>Floats that need not be finite\<close>

text \<open>
  The coefficients that come out of the fit, and what \<^verbatim>\<open>Compute_CTE\<close> computes from
  them, are floats that can be infinite or not a number. Finite arithmetic is exact;
  the sign of a zero is not kept. Addition, multiplication and the two comparisons
  follow IEEE 754: a product of an infinity and zero, and a sum of opposite infinities,
  is not a number, and every comparison with it is false. Nothing here raises.
\<close>

datatype pyfloat = Fin real | PosInf | NegInf | NaN

fun fadd :: "pyfloat \<Rightarrow> pyfloat \<Rightarrow> pyfloat" where
  "fadd (Fin a) (Fin b) = Fin (a + b)"
| "fadd NaN y = NaN"
| "fadd x NaN = NaN"
| "fadd PosInf NegInf = NaN"
| "fadd NegInf PosInf = NaN"
| "fadd PosInf y = PosInf"
| "fadd NegInf y = NegInf"
| "fadd x PosInf = PosInf"
| "fadd x NegInf = NegInf"

fun fneg :: "pyfloat \<Rightarrow> pyfloat" where
  "fneg (Fin a) = Fin (- a)"
| "fneg PosInf = NegInf"
| "fneg NegInf = PosInf"
| "fneg NaN = NaN"

fun fmul :: "pyfloat \<Rightarrow> pyfloat \<Rightarrow> pyfloat" where
  "fmul (Fin a) (Fin b) = Fin (a * b)"
| "fmul NaN y = NaN"
| "fmul x NaN = NaN"
| "fmul PosInf (Fin b) = (if b = 0 then NaN else if 0 < b then PosInf else NegInf)"
| "fmul NegInf (Fin b) = (if b = 0 then NaN else if 0 < b then NegInf else PosInf)"
| "fmul (Fin a) PosInf = (if a = 0 then NaN else if 0 < a then PosInf else NegInf)"
| "fmul (Fin a) NegInf = (if a = 0 then NaN else if 0 < a then NegInf else PosInf)"
| "fmul PosInf y = y"
| "fmul NegInf y = fneg y"

text \<open>\<^verbatim>\<open>x < y\<close> and \<^verbatim>\<open>x > y\<close>.\<close>

fun flt :: "pyfloat \<Rightarrow> pyfloat \<Rightarrow> bool" where
  "flt (Fin a) (Fin b) = (a < b)"
| "flt NaN y = False"
| "flt x NaN = False"
| "flt x NegInf = False"
| "flt PosInf y = False"
| "flt NegInf y = True"
| "flt x PosInf = True"

definition fgt :: "pyfloat \<Rightarrow> pyfloat \<Rightarrow> bool" where
  "fgt x y = flt y x"

text \<open>A float that lies in an interval: a number, not below and not above.\<close>

definition in_range :: "real \<Rightarrow> real \<Rightarrow> pyfloat \<Rightarrow> bool" where
  "in_range lo hi v = (case v of Fin r \<Rightarrow> lo \<le> r \<and> r \<le> hi | _ \<Rightarrow> False)"

section \<open>The node\<close>

text \<open>
  The instance fields of \<^verbatim>\<open>DBWNode\<close>. \<^verbatim>\<open>None\<close> is \<open>None\<close>. The controller object is a value
  of an arbitrary type \<open>'c\<close>: \<^verbatim>\<open>twist_controller.Controller\<close> is a collaborator of this file.
\<close>

record 'c DBWNode =
  vehicle_mass :: real
  wheel_radius :: real
  controller :: 'c
  dbw_enabled :: bool
  current_velocity :: "Twist option"
  finalwpts :: "Waypoint list option"
  current_pose :: "Point option"
  current_orient :: "Quaternion option"
  twist_cmd :: "Twist option"
  CTE :: pyfloat
  heading_err :: pyfloat
  throttle_prev :: real
  steer_prev :: real
  brake_prev :: real
  brake_new :: real
  current_velocity_prev :: real
  current_velocity_new :: real
  prevtime :: real

text \<open>
  The collaborators, taken as parameters:
  \<^item> \<^verbatim>\<open>tf.transformations.euler_from_quaternion\<close>, from the list \<^verbatim>\<open>[x, y, z, w]\<close> to
    (roll, pitch, yaw);
  \<^item> \<^verbatim>\<open>np.polyfit(x, y, deg)\<close>, which returns the coefficients, highest power first, or
    raises; the coefficients need not be finite;
  \<^item> \<^verbatim>\<open>Controller.control\<close>, which returns (throttle, brake, steering) and may change the
    controller object; its fifth argument is \<^verbatim>\<open>self.CTE\<close>.
\<close>

type_synonym euler = "real list \<Rightarrow> real \<times> real \<times> real"

type_synonym fit = "real list \<Rightarrow> real list \<Rightarrow> nat \<Rightarrow> py_error + pyfloat list"

type_synonym 'c control =
  "'c \<Rightarrow> real \<Rightarrow> real \<Rightarrow> real \<Rightarrow> real \<Rightarrow> pyfloat \<Rightarrow> real \<Rightarrow> bool
     \<Rightarrow> (real \<times> real \<times> real) \<times> 'c"

text \<open>
  \<^verbatim>\<open>__init__\<close> up to the call of \<^verbatim>\<open>self.loop()\<close>. The two parameters the node keeps, the
  controller object and the value of \<^verbatim>\<open>rospy.get_time()\<close> are arguments.
\<close>

definition DBWNode_init :: "real \<Rightarrow> real \<Rightarrow> 'c \<Rightarrow> real \<Rightarrow> 'c DBWNode" where
  "DBWNode_init mass radius ctrl now =
     \<lparr> vehicle_mass = mass,
       wheel_radius = radius,
       controller = ctrl,
       dbw_enabled = False,
       current_velocity = None,
       finalwpts = None,
       current_pose = None,
       current_orient = None,
       twist_cmd = None,
       CTE = Fin 0,
       heading_err = Fin 0,
       throttle_prev = 0,
       steer_prev = 0,
       brake_prev = 0,
       brake_new = 0,
       current_velocity_prev = 0,
       current_velocity_new = 0,
       prevtime = now \<rparr>"

subsection \<open>Callbacks\<close>

definition finalwpts_cb :: "'c DBWNode \<Rightarrow> Waypoint list \<Rightarrow> 'c DBWNode" where
  "finalwpts_cb self waypoints = self\<lparr>finalwpts := Some waypoints\<rparr>"

definition DBWEnabled_cb :: "'c DBWNode \<Rightarrow> bool \<Rightarrow> 'c DBWNode" where
  "DBWEnabled_cb self data = self\<lparr>dbw_enabled := data\<rparr>"

definition CurrPose_cb :: "'c DBWNode \<Rightarrow> Pose \<Rightarrow> 'c DBWNode" where
  "CurrPose_cb self msg_pose =
     self\<lparr>current_pose := Some (position msg_pose),
          current_orient := Some (orientation msg_pose)\<rparr>"

definition CurrVel_cb :: "'c DBWNode \<Rightarrow> Twist \<Rightarrow> 'c DBWNode" where
  "CurrVel_cb self twist = self\<lparr>current_velocity := Some twist\<rparr>"

definition TwistCmd_cb :: "'c DBWNode \<Rightarrow> Twist \<Rightarrow> 'c DBWNode" where
  "TwistCmd_cb self twist = self\<lparr>twist_cmd := Some twist\<rparr>"

subsection \<open>Compute\_CTE\<close>

text \<open>
  The two-argument arctangent and Horner's rule from the highest coefficient, on real
  numbers.
\<close>

definition atan2 :: "real \<Rightarrow> real \<Rightarrow> real" where
  "atan2 y x =
     (if 0 < x then arctan (y / x)
      else if x < 0 \<and> 0 \<le> y then arctan (y / x) + pi
      else if x < 0 then arctan (y / x) - pi
      else if 0 < y then pi / 2
      else if y < 0 then - (pi / 2)
      else 0)"

definition polyval :: "real list \<Rightarrow> real \<Rightarrow> real" where
  "polyval p x = foldl (\<lambda>y c. y * x + c) 0 p"

text \<open>
  \<^verbatim>\<open>math.atan2(y, x)\<close> on floats: the arctangent above on two finite arguments, and the
  values of C99 on the others. It raises on no argument.
\<close>

fun math_atan2 :: "pyfloat \<Rightarrow> pyfloat \<Rightarrow> pyfloat" where
  "math_atan2 (Fin y) (Fin x) = Fin (atan2 y x)"
| "math_atan2 NaN x = NaN"
| "math_atan2 y NaN = NaN"
| "math_atan2 PosInf (Fin x) = Fin (pi / 2)"
| "math_atan2 NegInf (Fin x) = Fin (- (pi / 2))"
| "math_atan2 PosInf PosInf = Fin (pi / 4)"
| "math_atan2 NegInf PosInf = Fin (- (pi / 4))"
| "math_atan2 PosInf NegInf = Fin (3 * pi / 4)"
| "math_atan2 NegInf NegInf = Fin (- (3 * pi / 4))"
| "math_atan2 (Fin y) PosInf = Fin 0"
| "math_atan2 (Fin y) NegInf = (if 0 \<le> y then Fin pi else Fin (- pi))"

text \<open>
  \<^verbatim>\<open>np.polyval(p, x)\<close> on floats: \<^verbatim>\<open>y = 0\<close>, then \<^verbatim>\<open>y = y * x + p[i]\<close> for every
  coefficient.
\<close>

definition np_polyval :: "pyfloat list \<Rightarrow> pyfloat \<Rightarrow> pyfloat" where
  "np_polyval p x = foldl (\<lambda>y c. fadd (fmul y x) c) (Fin 0) p"

text \<open>
  The loop over the waypoints: translate, rotate, append to the two lists.
\<close>

fun car_body :: "real \<Rightarrow> real \<Rightarrow> real \<Rightarrow> Waypoint list \<Rightarrow> real list \<times> real list
    \<Rightarrow> real list \<times> real list" where
  "car_body global_car_x global_car_y yaw [] (x_car_body, y_car_body) =
     (x_car_body, y_car_body)"
| "car_body global_car_x global_car_y yaw (wpt # wpts) (x_car_body, y_car_body) =
     (let del_x = point_x (position (pose wpt)) - global_car_x;
          del_y = point_y (position (pose wpt)) - global_car_y;
          temp1 = del_x * cos yaw - del_y * sin yaw;
          temp2 = del_x * sin yaw + del_y * cos yaw
      in car_body global_car_x global_car_y yaw wpts
           (x_car_body @ [temp1], y_car_body @ [temp2]))"

text \<open>
  \<^verbatim>\<open>Compute_CTE\<close>, first half (lines 183 to 200): the pose, the yaw with its sign
  inverted, and the loop. Reading a field of \<^verbatim>\<open>None\<close> raises \<^verbatim>\<open>AttributeError\<close>, and
  iterating over \<^verbatim>\<open>None\<close> raises \<^verbatim>\<open>TypeError\<close>.
\<close>

definition Compute_CTE_car_body :: "euler \<Rightarrow> 'c DBWNode \<Rightarrow> py_error + (real list \<times> real list)"
  where
  "Compute_CTE_car_body euler_from_quaternion self =
     (case current_pose self of
        None \<Rightarrow> Inl AttributeError
      | Some cp \<Rightarrow>
          (case current_orient self of
             None \<Rightarrow> Inl AttributeError
           | Some co \<Rightarrow>
               (let global_car_x = point_x cp;
                    global_car_y = point_y cp;
                    (roll, pitch, yaw) =
                       euler_from_quaternion [quat_x co, quat_y co, quat_z co, quat_w co];
                    yaw = - 1 * yaw
                in case finalwpts self of
                     None \<Rightarrow> Inl TypeError
                   | Some wpts \<Rightarrow>
                       Inr (car_body global_car_x global_car_y yaw wpts ([], [])))))"

text \<open>
  \<^verbatim>\<open>Compute_CTE\<close>, second half (lines 202 to 239): the fit, the slope, the two clamps.
  Whatever the fit raises is raised, and \<^verbatim>\<open>coeff_3rd[2]\<close> on fewer than three coefficients
  raises \<^verbatim>\<open>IndexError\<close>. There is no other check. The four comparisons are false on a
  value that is not a number, which then passes both clamps.
\<close>

definition Compute_CTE :: "euler \<Rightarrow> fit \<Rightarrow> 'c DBWNode \<Rightarrow> py_error + (pyfloat \<times> pyfloat)"
  where
  "Compute_CTE euler_from_quaternion polyfit self =
     (case Compute_CTE_car_body euler_from_quaternion self of
        Inl e \<Rightarrow> Inl e
      | Inr (x_car_body, y_car_body) \<Rightarrow>
          (case polyfit x_car_body y_car_body 3 of
             Inl e \<Rightarrow> Inl e
           | Inr coeff_3rd \<Rightarrow>
               if length coeff_3rd \<le> 2 then Inl IndexError
               else
                 (let slope = coeff_3rd ! 2;
                      heading = math_atan2 slope (Fin 1);
                      heading = (if fgt heading (Fin (pi / 2)) then Fin (pi / 2) else heading);
                      heading =
                        (if flt heading (Fin (- (pi / 2))) then Fin (- (pi / 2)) else heading);
                      cte = np_polyval coeff_3rd (Fin 0);
                      cte = (if fgt cte (Fin 5) then Fin 5 else cte);
                      cte = (if flt cte (Fin (- 5)) then Fin (- 5) else cte)
                  in Inr (cte, heading))))"

subsection \<open>publish\<close>

text \<open>
  Each channel is compared with its stored previous value and published when it differs,
  in the order throttle, steering, brake. \<^verbatim>\<open>publish\<close> assigns no field.
\<close>

definition publish :: "'c DBWNode \<Rightarrow> real \<Rightarrow> real \<Rightarrow> real \<Rightarrow> Cmd list" where
  "publish self throttle brake steer =
     (if throttle_prev self \<noteq> throttle then [ThrottleCmd throttle] else []) @
     (if steer_prev self \<noteq> steer then [SteeringCmd steer] else []) @
     (if brake_prev self \<noteq> brake then [BrakeCmd brake] else [])"

subsection \<open>One pass of the loop\<close>

text \<open>
  What one pass of the \<^verbatim>\<open>while\<close> loop leaves behind: the node, the commands it published
  in order, and the local variables \<^verbatim>\<open>dt\<close>, \<^verbatim>\<open>accel_meas\<close> and \<^verbatim>\<open>decel_calc\<close> when the body
  ran (the node computes them and drops them).
\<close>

record 'c pass =
  node :: "'c DBWNode"
  published :: "Cmd list"
  locals :: "(real \<times> real \<times> real) option"

text \<open>
  The body of the loop, with the value \<open>now\<close> of \<^verbatim>\<open>rospy.get_time()\<close>. An exception leaves
  the loop, so it is the result of the pass. The debug prints are off (\<^verbatim>\<open>DEBUG = False\<close>,
  \<^verbatim>\<open>if False\<close>). Python raises \<^verbatim>\<open>ZeroDivisionError\<close> on a zero float divisor.
\<close>

definition loop_body :: "euler \<Rightarrow> fit \<Rightarrow> 'c control \<Rightarrow> real \<Rightarrow> 'c DBWNode
    \<Rightarrow> py_error + 'c pass" where
  "loop_body euler_from_quaternion polyfit control now self =
     (case (finalwpts self, current_velocity self) of
        (Some wpts, Some cv) \<Rightarrow>
          (case twist_cmd self of
             None \<Rightarrow> Inl AttributeError
           | Some tc \<Rightarrow>
               (let proposed_linear_velocity = vec_x (twist_linear tc);
                    proposed_angular_velocity = vec_z (twist_angular tc);
                    current_linear_velocity = vec_x (twist_linear cv);
                    current_angular_velocity = vec_z (twist_angular cv)
                in case Compute_CTE euler_from_quaternion polyfit self of
                     Inl e \<Rightarrow> Inl e
                   | Inr (cte, heading) \<Rightarrow>
                       (let self = self\<lparr>CTE := cte, heading_err := heading\<rparr>;
                            dbw_status = dbw_enabled self;
                            ((throttle, brake, steering), ctrl) =
                               control (controller self)
                                 proposed_linear_velocity proposed_angular_velocity
                                 current_linear_velocity current_angular_velocity
                                 (CTE self) proposed_angular_velocity dbw_status;
                            self = self\<lparr>controller := ctrl\<rparr>;
                            self = self\<lparr>brake_prev := brake_new self\<rparr>;
                            self = self\<lparr>brake_new := brake\<rparr>;
                            self = self\<lparr>current_velocity_prev := current_velocity_new self\<rparr>;
                            self = self\<lparr>current_velocity_new := current_linear_velocity\<rparr>;
                            dt = now - prevtime self;
                            self = self\<lparr>prevtime := now\<rparr>;
                            dt = (if dt < 1 / 1000 then 1 / 10 else dt)
                        in if dt = 0 \<or> wheel_radius self * vehicle_mass self = 0
                           then Inl ZeroDivisionError
                           else
                             (let accel_meas =
                                    (current_velocity_new self - current_velocity_prev self) / dt;
                                  decel_calc =
                                    - brake_prev self / (wheel_radius self * vehicle_mass self)
                              in Inr \<lparr> node = self,
                                       published =
                                         (if dbw_status then publish self throttle brake steering
                                          else []),
                                       locals = Some (dt, accel_meas, decel_calc) \<rparr>))))
      | _ \<Rightarrow> Inr \<lparr> node = self, published = [], locals = None \<rparr>)"

subsection \<open>The loop and the callbacks between its passes\<close>

text \<open>
  What happens to the node, in order: a message on one of the five topics, or a pass of
  the loop at a given time. Passes and callbacks are taken one at a time.
\<close>

datatype event =
    Final_waypoints "Waypoint list"
  | Dbw_enabled bool
  | Current_pose Pose
  | Current_velocity Twist
  | Twist_cmd Twist
  | Tick real

text \<open>
  The loop over a finite sequence of events, up to shutdown or to the first exception:
  the commands published so far, and the node or the exception.
\<close>

fun loop :: "euler \<Rightarrow> fit \<Rightarrow> 'c control \<Rightarrow> event list \<Rightarrow> 'c DBWNode
    \<Rightarrow> Cmd list \<times> (py_error + 'c DBWNode)" where
  "loop E F C [] self = ([], Inr self)"
| "loop E F C (Final_waypoints w # evs) self = loop E F C evs (finalwpts_cb self w)"
| "loop E F C (Dbw_enabled b # evs) self = loop E F C evs (DBWEnabled_cb self b)"
| "loop E F C (Current_pose p # evs) self = loop E F C evs (CurrPose_cb self p)"
| "loop E F C (Current_velocity t # evs) self = loop E F C evs (CurrVel_cb self t)"
| "loop E F C (Twist_cmd t # evs) self = loop E F C evs (TwistCmd_cb self t)"
| "loop E F C (Tick now # evs) self =
     (case loop_body E F C now self of
        Inl e \<Rightarrow> ([], Inl e)
      | Inr p \<Rightarrow> (let (cmds, r) = loop E F C evs (node p) in (published p @ cmds, r)))"

text \<open>The commands of a pass; a pass that raised published none before it did.\<close>

definition cmds_of :: "py_error + 'c pass \<Rightarrow> Cmd list" where
  "cmds_of r = (case r of Inl e \<Rightarrow> [] | Inr p \<Rightarrow> published p)"

section \<open>What the specification says of the estimator\<close>

text \<open>
  Rotation of a vector by an angle, counter-clockwise, and the local frame as the
  specification words it: subtract the current position, then rotate by the negation of
  the corrected yaw, the corrected yaw being \<open>- 1\<close> times the extracted yaw.
\<close>

definition rotate :: "real \<Rightarrow> real \<times> real \<Rightarrow> real \<times> real" where
  "rotate a v = (fst v * cos a - snd v * sin a, fst v * sin a + snd v * cos a)"

definition translate :: "Point \<Rightarrow> Waypoint \<Rightarrow> real \<times> real" where
  "translate cp wpt =
     (point_x (position (pose wpt)) - point_x cp, point_y (position (pose wpt)) - point_y cp)"

definition spec_local_frame :: "real \<Rightarrow> Point \<Rightarrow> Waypoint list \<Rightarrow> real list \<times> real list" where
  "spec_local_frame yaw cp wpts =
     (let corrected = - 1 * yaw
      in (map (\<lambda>wpt. fst (rotate (- corrected) (translate cp wpt))) wpts,
          map (\<lambda>wpt. snd (rotate (- corrected) (translate cp wpt))) wpts))"

text \<open>
  A least-squares cubic for the points \<open>zip xs ys\<close>: four coefficients, highest power
  first, whose sum of squared residuals no other four coefficients improve on.
\<close>

definition sse :: "real list \<Rightarrow> real list \<Rightarrow> real list \<Rightarrow> real" where
  "sse cs xs ys = (\<Sum>(x, y)\<leftarrow>zip xs ys. (polyval cs x - y)\<^sup>2)"

definition least_squares :: "real list \<Rightarrow> real list \<Rightarrow> real list \<Rightarrow> bool" where
  "least_squares xs ys cs \<longleftrightarrow>
     length cs = 4 \<and> (\<forall>cs'. length cs' = 4 \<longrightarrow> sse cs xs ys \<le> sse cs' xs ys)"

section \<open>Concrete collaborators and inputs\<close>

text \<open>
  An orientation whose yaw is \<open>0\<close>, one whose yaw is a quarter turn, a fit that returns
  given coefficients for any points (and raises on none, as \<^verbatim>\<open>np.polyfit\<close> does), the same
  with finite coefficients, and a controller without state that returns the same triple
  on every call.
\<close>

definition yaw_zero :: euler where
  "yaw_zero q = (0, 0, 0)"

definition yaw_quarter :: euler where
  "yaw_quarter q = (0, 0, pi / 2)"

definition fit_floats :: "pyfloat list \<Rightarrow> fit" where
  "fit_floats cs xs ys deg = (if xs = [] then Inl TypeError else Inr cs)"

definition fit_const :: "real list \<Rightarrow> fit" where
  "fit_const cs = fit_floats (map Fin cs)"

definition control_const :: "real \<Rightarrow> real \<Rightarrow> real \<Rightarrow> unit control" where
  "control_const throttle brake steering c plv pav clv cav cte he enabled =
     ((throttle, brake, steering), c)"

definition wpt_at :: "real \<Rightarrow> real \<Rightarrow> Waypoint" where
  "wpt_at x y =
     \<lparr> pose = \<lparr> position = \<lparr> point_x = x, point_y = y, point_z = 0 \<rparr>,
                orientation = \<lparr> quat_x = 0, quat_y = 0, quat_z = 0, quat_w = 1 \<rparr> \<rparr> \<rparr>"

definition pose_origin :: Pose where
  "pose_origin =
     \<lparr> position = \<lparr> point_x = 0, point_y = 0, point_z = 0 \<rparr>,
       orientation = \<lparr> quat_x = 0, quat_y = 0, quat_z = 0, quat_w = 1 \<rparr> \<rparr>"

definition twist_of :: "real \<Rightarrow> real \<Rightarrow> Twist" where
  "twist_of v w =
     \<lparr> twist_linear = \<lparr> vec_x = v, vec_y = 0, vec_z = 0 \<rparr>,
       twist_angular = \<lparr> vec_x = 0, vec_y = 0, vec_z = w \<rparr> \<rparr>"

text \<open>
  The node with the default parameters, started at time \<open>0\<close>; four waypoints straight
  ahead on the x-axis; everything the loop reads, received once.
\<close>

definition node0 :: "unit DBWNode" where
  "node0 = DBWNode_init (173635 / 100) (2413 / 10000) () 0"

definition straight_ahead :: "Waypoint list" where
  "straight_ahead = [wpt_at 1 0, wpt_at 2 0, wpt_at 3 0, wpt_at 4 0]"

definition all_inputs :: "Waypoint list \<Rightarrow> event list" where
  "all_inputs wpts =
     [Final_waypoints wpts, Current_velocity (twist_of 3 0), Twist_cmd (twist_of 5 0),
      Current_pose pose_origin]"

definition ready :: "Waypoint list \<Rightarrow> unit DBWNode" where
  "ready wpts =
     CurrPose_cb
       (TwistCmd_cb (CurrVel_cb (finalwpts_cb node0 wpts) (twist_of 3 0)) (twist_of 5 0))
       pose_origin"

text \<open>
  Other paths: four waypoints on the line \<open>y = 2 * x + 7\<close>, one waypoint ahead, one
  waypoint to the left.
\<close>

definition on_a_line :: "Waypoint list" where
  "on_a_line = [wpt_at 1 9, wpt_at 2 11, wpt_at 3 13, wpt_at 4 15]"

definition one_ahead :: "Waypoint list" where
  "one_ahead = [wpt_at 1 0]"

definition one_left :: "Waypoint list" where
  "one_left = [wpt_at 0 1]"

text \<open>
  Four waypoints that alternate between \<open>1e308\<close> and \<open>- 1e308\<close>, all finite floats. The
  cubic through them is \<open>1e308 * (- 4/3 * x^3 + 10 * x^2 - 68/3 * x + 15)\<close>, whose
  coefficients are beyond the largest float.
\<close>

definition zigzag :: "Waypoint list" where
  "zigzag = [wpt_at 1 (10 ^ 308), wpt_at 2 (- (10 ^ 308)), wpt_at 3 (10 ^ 308),
             wpt_at 4 (- (10 ^ 308))]"

text \<open>The same node after \<^verbatim>\<open>/vehicle/dbw_enabled\<close> said \<open>True\<close>.\<close>

definition enabled :: "Waypoint list \<Rightarrow> unit DBWNode" where
  "enabled wpts = DBWEnabled_cb (ready wpts) True"

text \<open>
  An enabled node in the middle of a drive: the previous pass was at time \<open>10\<close>, at
  speed \<open>2\<close> and brake torque \<open>40\<close>. And the same node, disabled.
\<close>

definition driving :: "unit DBWNode" where
  "driving = (enabled straight_ahead)\<lparr>brake_new := 40, current_velocity_new := 2, prevtime := 10\<rparr>"

definition taken_over :: "unit DBWNode" where
  "taken_over = DBWEnabled_cb driving False"

section \<open>Facts about the parts\<close>

lemmas input_defs =
  all_inputs_def straight_ahead_def on_a_line_def one_ahead_def one_left_def zigzag_def node0_def
  ready_def enabled_def driving_def taken_over_def DBWNode_init_def wpt_at_def pose_origin_def twist_of_def
  finalwpts_cb_def CurrVel_cb_def TwistCmd_cb_def CurrPose_cb_def DBWEnabled_cb_def

lemmas stub_defs =
  yaw_zero_def yaw_quarter_def fit_const_def fit_floats_def control_const_def

lemmas node_defs =
  loop_body_def Compute_CTE_def Compute_CTE_car_body_def publish_def polyval_def atan2_def
  np_polyval_def fgt_def Let_def

lemma car_body_map:
  "car_body gx gy yaw wpts (xb, yb) =
     (xb @ map (\<lambda>wpt. (point_x (position (pose wpt)) - gx) * cos yaw
                        - (point_y (position (pose wpt)) - gy) * sin yaw) wpts,
      yb @ map (\<lambda>wpt. (point_x (position (pose wpt)) - gx) * sin yaw
                        + (point_y (position (pose wpt)) - gy) * cos yaw) wpts)"
  by (induction wpts arbitrary: xb yb) (simp_all add: Let_def)

lemma Compute_CTE_car_body_length:
  "Compute_CTE_car_body E self = Inr (xs, ys) \<Longrightarrow> length ys = length xs"
  by (auto simp: Compute_CTE_car_body_def Let_def car_body_map split: option.splits prod.splits)

lemma polyval4: "polyval [a, b, c, d] x = a * x^3 + b * x^2 + c * x + d"
  by (simp add: polyval_def power3_eq_cube power2_eq_square algebra_simps)

lemma atan2_1: "atan2 s 1 = arctan s"
  by (simp add: atan2_def)

text \<open>On finite floats \<^verbatim>\<open>np.polyval\<close> is Horner's rule on real numbers.\<close>

lemma foldl_Fin:
  "foldl (\<lambda>y c. fadd (fmul y (Fin x)) c) (Fin a) (map Fin cs) =
     Fin (foldl (\<lambda>y c. y * x + c) a cs)"
  by (induction cs arbitrary: a) simp_all

lemma np_polyval_Fin: "np_polyval (map Fin cs) (Fin x) = Fin (polyval cs x)"
  by (simp add: np_polyval_def polyval_def foldl_Fin)

text \<open>
  At \<open>0\<close> it is the last of four coefficients when the first three are finite, and not
  a number otherwise: an infinity times zero is not a number.
\<close>

lemma np_polyval_at_0:
  "np_polyval [a, b, c, d] (Fin 0) =
     (if (\<exists>a' b' c'. a = Fin a' \<and> b = Fin b' \<and> c = Fin c') then d else NaN)"
  by (cases a; cases b; cases c; cases d) (simp_all add: np_polyval_def)

text \<open>
  The estimator on a fit with finite coefficients: the two clamps, on real numbers.
\<close>

lemma Compute_CTE_finite_fit:
  assumes "Compute_CTE_car_body E self = Inr (xs, ys)"
    and "F xs ys 3 = Inr [Fin a, Fin b, Fin c, Fin d]"
  shows "Compute_CTE E F self =
     Inr (Fin (max (- 5) (min 5 d)), Fin (max (- (pi / 2)) (min (pi / 2) (atan2 c 1))))"
  using assms arctan_lbound [of c] arctan_ubound [of c]
  by (simp add: Compute_CTE_def np_polyval_at_0 atan2_1 fgt_def Let_def max_def min_def)

text \<open>The estimator returns, without an exception, on any four coefficients.\<close>

lemma Compute_CTE_returns:
  assumes "Compute_CTE_car_body E self = Inr (xs, ys)"
    and "F xs ys 3 = Inr [a, b, c, d]"
  shows "\<exists>cte heading. Compute_CTE E F self = Inr (cte, heading)"
  using assms by (simp add: Compute_CTE_def Let_def)

text \<open>
  When one of the first three coefficients is infinite or not a number, the CTE that the
  estimator returns is not a number.
\<close>

lemma Compute_CTE_overflowed_fit:
  assumes "Compute_CTE_car_body E self = Inr (xs, ys)"
    and "F xs ys 3 = Inr [a, b, c, d]"
    and "\<not> (\<exists>a' b' c'. a = Fin a' \<and> b = Fin b' \<and> c = Fin c')"
  shows "\<exists>heading. Compute_CTE E F self = Inr (NaN, heading)"
proof -
  from assms(3) have "np_polyval [a, b, c, d] (Fin 0) = NaN"
    by (simp only: np_polyval_at_0 if_False)
  with assms(1,2) show ?thesis
    by (simp add: Compute_CTE_def fgt_def Let_def)
qed

lemma sse_nonneg: "0 \<le> sse cs xs ys"
  unfolding sse_def by (rule sum_list_nonneg) auto

lemma sse_zero_iff:
  "sse cs xs ys = 0 \<longleftrightarrow> (\<forall>(x, y)\<in>set (zip xs ys). polyval cs x = y)"
proof -
  have "sse cs xs ys = 0 \<longleftrightarrow>
      (\<forall>r\<in>set (map (\<lambda>(x, y). (polyval cs x - y)\<^sup>2) (zip xs ys)). r = 0)"
    unfolding sse_def by (rule sum_list_nonneg_eq_0_iff) auto
  then show ?thesis by auto
qed

text \<open>A cubic that vanishes at four points is the zero cubic.\<close>

lemma cubic_four_roots:
  fixes a b c d :: real
  assumes roots: "\<forall>x\<in>S. a * x^3 + b * x^2 + c * x + d = 0"
    and fin: "finite S" and card: "4 \<le> card S"
  shows "a = 0 \<and> b = 0 \<and> c = 0 \<and> d = 0"
proof (rule ccontr)
  assume nz: "\<not> (a = 0 \<and> b = 0 \<and> c = 0 \<and> d = 0)"
  define k where "k = (\<lambda>i::nat. [d, c, b, a] ! i)"
  have poly: "(\<Sum>i\<le>3. k i * z ^ i) = a * z^3 + b * z^2 + c * z + d" for z
    by (simp add: k_def numeral_3_eq_3 power2_eq_square)
  from nz obtain j where j: "k j \<noteq> 0" "j \<le> 3"
  proof -
    from nz consider "d \<noteq> 0" | "c \<noteq> 0" | "b \<noteq> 0" | "a \<noteq> 0" by blast
    then show ?thesis
    proof cases
      case 1 then show ?thesis using that [of 0] by (simp add: k_def)
    next
      case 2 then show ?thesis using that [of 1] by (simp add: k_def)
    next
      case 3 then show ?thesis using that [of 2] by (simp add: k_def)
    next
      case 4 then show ?thesis using that [of 3] by (simp add: k_def numeral_3_eq_3)
    qed
  qed
  from j polyfun_rootbound [of k j 3]
  have finR: "finite {z. (\<Sum>i\<le>3. k i * z ^ i) = 0}"
    and cardR: "card {z. (\<Sum>i\<le>3. k i * z ^ i) = 0} \<le> 3" by auto
  have "S \<subseteq> {z. (\<Sum>i\<le>3. k i * z ^ i) = 0}"
    using roots by (auto simp: poly)
  then have "card S \<le> card {z. (\<Sum>i\<le>3. k i * z ^ i) = 0}"
    using finR by (rule card_mono [rotated])
  with cardR card show False by simp
qed

text \<open>The only least-squares cubic through four or more points of the x-axis is zero.\<close>

lemma least_squares_flat:
  assumes ls: "least_squares xs ys cs"
    and flat: "\<forall>y\<in>set ys. y = 0"
    and len: "length ys = length xs"
    and dist: "distinct xs" and four: "4 \<le> length xs"
  shows "cs = [0, 0, 0, 0]"
proof -
  from ls have "length cs = 4" by (simp add: least_squares_def)
  then obtain a b c d where cs: "cs = [a, b, c, d]"
    by (auto simp: length_Suc_conv numeral_eq_Suc)
  have "sse [0, 0, 0, 0] xs ys = 0"
    unfolding sse_zero_iff using flat by (auto simp: polyval_def dest: set_zip_rightD)
  moreover from ls have "sse cs xs ys \<le> sse [0, 0, 0, 0] xs ys"
    by (simp add: least_squares_def)
  ultimately have "sse cs xs ys = 0"
    using sse_nonneg [of cs xs ys] by simp
  then have fit: "\<forall>(x, y)\<in>set (zip xs ys). polyval cs x = y"
    by (simp add: sse_zero_iff)
  have "\<forall>x\<in>set xs. a * x^3 + b * x^2 + c * x + d = 0"
  proof
    fix x assume "x \<in> set xs"
    then obtain i where i: "i < length xs" "xs ! i = x" by (auto simp: in_set_conv_nth)
    with len have "(x, ys ! i) \<in> set (zip xs ys)"
      by (auto simp: set_zip)
    moreover from i len have "ys ! i = 0" using flat by simp
    ultimately show "a * x^3 + b * x^2 + c * x + d = 0"
      using fit by (auto simp: cs polyval4)
  qed
  moreover have "4 \<le> card (set xs)"
    using dist four by (simp add: distinct_card)
  ultimately have "a = 0 \<and> b = 0 \<and> c = 0 \<and> d = 0"
    by (intro cubic_four_roots [of "set xs"]) auto
  with cs show ?thesis by simp
qed

lemma least_squares_exact:
  assumes "length cs = 4" and "\<forall>(x, y)\<in>set (zip xs ys). polyval cs x = y"
  shows "least_squares xs ys cs"
proof -
  from assms(2) have "sse cs xs ys = 0" by (simp add: sse_zero_iff)
  then show ?thesis
    using assms(1) sse_nonneg by (simp add: least_squares_def)
qed

lemma car_body_on_a_line:
  "Compute_CTE_car_body yaw_zero (ready on_a_line) = Inr ([1, 2, 3, 4], [9, 11, 13, 15])"
  by (simp add: input_defs stub_defs Compute_CTE_car_body_def Let_def)

text \<open>On the line \<open>y = 2 * x + 7\<close> the offset \<open>7\<close> is clamped to \<open>5\<close>.\<close>

lemma Compute_CTE_on_a_line:
  "Compute_CTE yaw_zero (fit_const [0, 0, 2, 7]) (ready on_a_line) = Inr (Fin 5, Fin (arctan 2))"
proof -
  have "fit_const [0, 0, 2, 7] [1, 2, 3, 4] [9, 11, 13, 15] 3 = Inr [Fin 0, Fin 0, Fin 2, Fin 7]"
    by (simp add: fit_const_def fit_floats_def)
  from Compute_CTE_finite_fit [where F = "fit_const [0, 0, 2, 7]", OF car_body_on_a_line this]
  show ?thesis
    using arctan_lbound [of 2] arctan_ubound [of 2] by (simp add: atan2_1)
qed

lemma car_body_straight_ahead:
  "Compute_CTE_car_body yaw_zero (ready straight_ahead) = Inr ([1, 2, 3, 4], [0, 0, 0, 0])"
  by (simp add: input_defs stub_defs Compute_CTE_car_body_def Let_def)

text \<open>
  One pass of the loop: skipped without waypoints or velocity; what it leaves behind when
  its body runs; what it never changes.
\<close>

lemma loop_body_skip:
  "finalwpts self = None \<or> current_velocity self = None \<Longrightarrow>
   loop_body E F C now self = Inr \<lparr> node = self, published = [], locals = None \<rparr>"
  by (auto simp: loop_body_def split: option.splits)

lemma loop_body_runs:
  assumes "finalwpts self = Some wpts" and "current_velocity self = Some cv"
    and "twist_cmd self = Some tc"
    and "Compute_CTE E F self = Inr (cte, heading)"
    and "C (controller self) (vec_x (twist_linear tc)) (vec_z (twist_angular tc))
           (vec_x (twist_linear cv)) (vec_z (twist_angular cv)) cte
           (vec_z (twist_angular tc)) (dbw_enabled self) = ((throttle, brake, steering), ctrl)"
    and "wheel_radius self * vehicle_mass self \<noteq> 0"
    and "dt = (if now - prevtime self < 1 / 1000 then 1 / 10 else now - prevtime self)"
  shows "loop_body E F C now self =
     Inr \<lparr> node = self\<lparr>CTE := cte, heading_err := heading, controller := ctrl,
                        brake_prev := brake_new self, brake_new := brake,
                        current_velocity_prev := current_velocity_new self,
                        current_velocity_new := vec_x (twist_linear cv),
                        prevtime := now\<rparr>,
            published =
              (if dbw_enabled self
               then publish (self\<lparr>brake_prev := brake_new self\<rparr>) throttle brake steering
               else []),
            locals = Some (dt, (vec_x (twist_linear cv) - current_velocity_new self) / dt,
                           - brake_new self / (wheel_radius self * vehicle_mass self)) \<rparr>"
proof -
  have "dt \<noteq> 0" using assms(7) by (simp split: if_splits)
  with assms show ?thesis
    by (simp add: loop_body_def Let_def publish_def)
qed

lemma loop_body_disabled:
  "\<not> dbw_enabled self \<Longrightarrow> cmds_of (loop_body E F C now self) = []"
  by (auto simp: cmds_of_def loop_body_def Let_def split: option.splits sum.splits prod.splits)

lemma loop_body_dbw_enabled:
  "loop_body E F C now self = Inr p \<Longrightarrow> dbw_enabled (node p) = dbw_enabled self"
  by (auto simp: loop_body_def Let_def split: option.splits sum.splits prod.splits if_splits)

lemma loop_body_latches:
  "loop_body E F C now self = Inr p \<Longrightarrow>
     throttle_prev (node p) = throttle_prev self \<and> steer_prev (node p) = steer_prev self"
  by (auto simp: loop_body_def Let_def split: option.splits sum.splits prod.splits if_splits)

lemma loop_disabled:
  "\<not> dbw_enabled self \<Longrightarrow> \<forall>ev\<in>set evs. ev \<noteq> Dbw_enabled True \<Longrightarrow>
     fst (loop E F C evs self) = []"
proof (induction evs arbitrary: self)
  case Nil
  then show ?case by simp
next
  case (Cons ev evs)
  show ?case
  proof (cases ev)
    case (Tick now)
    show ?thesis
    proof (cases "loop_body E F C now self")
      case (Inl e)
      with Tick show ?thesis by simp
    next
      case (Inr p)
      with Cons.prems(1) loop_body_disabled [of self E F C now]
      have "published p = []" by (simp add: cmds_of_def)
      moreover from Inr Cons.prems(1) have "\<not> dbw_enabled (node p)"
        by (simp add: loop_body_dbw_enabled)
      with Cons.IH Cons.prems(2) have "fst (loop E F C evs (node p)) = []" by simp
      ultimately show ?thesis using Tick Inr by (simp split: prod.splits)
    qed
  next
    case (Dbw_enabled b)
    with Cons.prems(2) have "\<not> b" by auto
    with Cons.IH [of "DBWEnabled_cb self b"] Cons.prems(2) Dbw_enabled show ?thesis
      by (simp add: DBWEnabled_cb_def)
  qed (use Cons in \<open>simp_all add: finalwpts_cb_def CurrPose_cb_def CurrVel_cb_def TwistCmd_cb_def\<close>)
qed

lemma car_body_one_ahead:
  "Compute_CTE_car_body yaw_zero (enabled one_ahead) = Inr ([1], [0])"
  by (simp add: input_defs stub_defs Compute_CTE_car_body_def Let_def)

lemma car_body_no_waypoint:
  "Compute_CTE_car_body yaw_zero (enabled []) = Inr ([], [])"
  by (simp add: input_defs stub_defs Compute_CTE_car_body_def Let_def)

lemma Compute_CTE_straight_ahead:
  "Compute_CTE yaw_zero (fit_const [0, 0, 0, 0]) driving = Inr (Fin 0, Fin 0)"
  "Compute_CTE yaw_zero (fit_const [0, 0, 0, 0]) taken_over = Inr (Fin 0, Fin 0)"
  by (simp_all add: input_defs stub_defs node_defs)

section \<open>The latch\<close>

text \<open>
  C1. Latch idempotence: the same (throttle, brake, steer) triple on two consecutive
  enabled passes should give one publish per channel. The node does not do that:
  \<^verbatim>\<open>throttle_prev\<close> and \<^verbatim>\<open>steer_prev\<close> are never assigned after \<^verbatim>\<open>__init__\<close>, so
  \<^verbatim>\<open>publish\<close> compares throttle and steering with \<open>0\<close> on every pass. With the triple
  \<open>(1/2, 100, 1/10)\<close> on two enabled passes, throttle and steering are published twice
  and the brake once.
\<close>

theorem same_triple_twice_published_twice:
  "fst (loop yaw_zero (fit_const [0, 0, 0, 0]) (control_const (1 / 2) 100 (1 / 10))
         (all_inputs straight_ahead @ [Dbw_enabled True, Tick 1, Tick 2]) node0) =
     [ThrottleCmd (1 / 2), SteeringCmd (1 / 10), BrakeCmd 100,
      ThrottleCmd (1 / 2), SteeringCmd (1 / 10)]"
  by (simp add: input_defs stub_defs node_defs)

text \<open>
  C2. The stored previous value of every channel should be the value of the previous
  pass. After a disabled and an enabled pass on which the controller returned
  \<open>(1/2, 100, 1/10)\<close>, \<^verbatim>\<open>brake_prev\<close> is \<open>100\<close>, and \<^verbatim>\<open>throttle_prev\<close> and \<^verbatim>\<open>steer_prev\<close>
  are still \<open>0\<close>.
\<close>

theorem throttle_prev_steer_prev_stay_zero:
  "case snd (loop yaw_zero (fit_const [0, 0, 0, 0]) (control_const (1 / 2) 100 (1 / 10))
         (all_inputs straight_ahead @ [Tick 1, Dbw_enabled True, Tick 2]) node0) of
      Inl e \<Rightarrow> False
    | Inr self \<Rightarrow> throttle_prev self = 0 \<and> steer_prev self = 0 \<and> brake_prev self = 100"
  by (simp add: input_defs stub_defs node_defs)

section \<open>Missing inputs\<close>

text \<open>
  C4. A pass should raise nothing whatever inputs are missing. The guard of the loop
  tests the waypoints and the velocity only: with both received and no message on
  \<^verbatim>\<open>/twist_cmd\<close> yet, \<^verbatim>\<open>self.twist_cmd.linear.x\<close> raises \<^verbatim>\<open>AttributeError\<close> and the loop
  ends.
\<close>

theorem tick_without_twist_cmd_raises:
  "loop yaw_zero (fit_const [0, 0, 0, 0]) (control_const (1 / 2) 100 (1 / 10))
     [Final_waypoints straight_ahead, Current_velocity (twist_of 3 0),
      Current_pose pose_origin, Tick 1] node0 = ([], Inl AttributeError)"
  by (simp add: input_defs stub_defs node_defs)

section \<open>The local frame\<close>

text \<open>
  C5, as amended. For every waypoint the estimator subtracts the current position and
  then rotates the difference by the corrected yaw itself, which is \<open>- 1\<close> times the yaw
  extracted from the orientation (not by the negation of the corrected yaw).
\<close>

theorem car_body_rotates_by_corrected_yaw:
  assumes "current_pose self = Some cp" and "current_orient self = Some co"
    and "finalwpts self = Some wpts"
    and "E [quat_x co, quat_y co, quat_z co, quat_w co] = (roll, pitch, yaw)"
  shows "Compute_CTE_car_body E self =
     Inr (map (\<lambda>wpt. fst (rotate (- 1 * yaw) (translate cp wpt))) wpts,
          map (\<lambda>wpt. snd (rotate (- 1 * yaw) (translate cp wpt))) wpts)"
  using assms
  by (simp add: Compute_CTE_car_body_def car_body_map rotate_def translate_def Let_def)

text \<open>
  At a yaw of a quarter turn, the waypoint one metre to the left in the world is one
  metre ahead in the local frame.
\<close>

theorem car_body_rotates_by_corrected_yaw_witness:
  "current_pose (ready one_left) = Some (position pose_origin) \<and>
   current_orient (ready one_left) = Some (orientation pose_origin) \<and>
   finalwpts (ready one_left) = Some one_left \<and>
   yaw_quarter [0, 0, 0, 1] = (0, 0, pi / 2) \<and>
   Compute_CTE_car_body yaw_quarter (ready one_left) = Inr ([1], [0])"
  using car_body_rotates_by_corrected_yaw
    [of "ready one_left" "position pose_origin" "orientation pose_origin" one_left
        yaw_quarter 0 0 "pi / 2"]
  by (simp add: input_defs stub_defs rotate_def translate_def)

text \<open>
  C5 as stated fails there: rotating by the negation of the corrected yaw puts that
  waypoint one metre behind.
\<close>

theorem car_body_negated_corrected_yaw_counterexample:
  "Compute_CTE_car_body yaw_quarter (ready one_left) \<noteq>
     Inr (spec_local_frame (pi / 2) (position pose_origin) one_left)"
  by (simp add: input_defs stub_defs Compute_CTE_car_body_def spec_local_frame_def
        rotate_def translate_def Let_def)

section \<open>The fit and the clamps\<close>

text \<open>
  C6. The estimator should return a CTE in \<open>[- 5, 5]\<close> and a heading error in
  \<open>[- pi/2, pi/2]\<close> whatever the fit. It does when the coefficients are finite. When
  one of the first three is not, the value of the cubic at \<open>0\<close> is not a number, both
  comparisons of the clamp are false on it, and the estimator returns it as the CTE. The
  four finite waypoints that alternate between \<open>1e308\<close> and \<open>- 1e308\<close> have a cubic whose
  coefficients overflow.
\<close>

theorem Compute_CTE_nan_passes_the_clamp:
  "Compute_CTE yaw_zero (fit_floats [NegInf, PosInf, NegInf, PosInf]) (ready zigzag) =
     Inr (NaN, Fin (- (pi / 2))) \<and>
   \<not> in_range (- 5) 5 NaN"
  by (simp add: input_defs stub_defs node_defs in_range_def)

text \<open>
  C8. If every waypoint lies on the local x-axis, at four or more distinct x values,
  and the fit returns a least-squares cubic, then the estimator returns CTE \<open>0\<close> and
  heading error \<open>0\<close>. (The x values need not be positive.)
\<close>

theorem Compute_CTE_on_x_axis:
  assumes "Compute_CTE_car_body E self = Inr (xs, ys)"
    and "F xs ys 3 = Inr (map Fin cs)"
    and "least_squares xs ys cs"
    and "\<forall>y\<in>set ys. y = 0"
    and "distinct xs" and "4 \<le> length xs"
  shows "Compute_CTE E F self = Inr (Fin 0, Fin 0)"
proof -
  have "length ys = length xs"
    using assms(1) by (rule Compute_CTE_car_body_length)
  with assms have "cs = [0, 0, 0, 0]"
    by (intro least_squares_flat)
  with assms(1,2) Compute_CTE_finite_fit [of E self xs ys F 0 0 0 0] show ?thesis
    by (simp add: atan2_1)
qed

theorem Compute_CTE_on_x_axis_witness:
  "Compute_CTE_car_body yaw_zero (ready straight_ahead) = Inr ([1, 2, 3, 4], [0, 0, 0, 0]) \<and>
   fit_const [0, 0, 0, 0] [1, 2, 3, 4] [0, 0, 0, 0] 3 = Inr (map Fin [0, 0, 0, 0]) \<and>
   least_squares [1, 2, 3, 4] [0, 0, 0, 0] [0, 0, 0, 0] \<and>
   set [0, 0, 0, 0 :: real] = {0} \<and> distinct [1, 2, 3, 4 :: real] \<and>
   4 \<le> length [1, 2, 3, 4 :: real] \<and>
   Compute_CTE yaw_zero (fit_const [0, 0, 0, 0]) (ready straight_ahead) = Inr (Fin 0, Fin 0)"
proof -
  have fit: "fit_const [0, 0, 0, 0] [1, 2, 3, 4] [0, 0, 0, 0] 3 = Inr (map Fin [0, 0, 0, 0])"
    by (simp add: fit_const_def fit_floats_def)
  have ls: "least_squares [1, 2, 3, 4] [0, 0, 0, 0] [0, 0, 0, 0]"
    by (rule least_squares_exact) (simp_all add: polyval_def)
  have flat: "\<forall>y\<in>set [0, 0, 0, 0 :: real]. y = 0" by simp
  have dist: "distinct [1, 2, 3, 4 :: real]" by simp
  have four: "4 \<le> length [1, 2, 3, 4 :: real]" by simp
  from Compute_CTE_on_x_axis
    [where F = "fit_const [0, 0, 0, 0]", OF car_body_straight_ahead fit ls flat dist four]
  show ?thesis using fit ls car_body_straight_ahead by simp
qed

section \<open>Short paths\<close>

text \<open>
  C3, as amended. The estimator makes no check of its own on a path with fewer than 4
  waypoints (or with a single local x-coordinate): it hands the local-frame points to the
  fit. When the fit raises, the estimator raises the same exception and so does the pass,
  which then publishes nothing. When the fit returns four coefficients, the estimator
  returns a CTE and a heading error as for any other path, the clamped values when the
  coefficients are finite, and the pass goes on to the controller and, when enabled, to
  \<^verbatim>\<open>publish\<close>.
\<close>

theorem short_path_is_fitted:
  assumes "finalwpts self = Some wpts" and "current_velocity self = Some cv"
    and "twist_cmd self = Some tc"
    and "Compute_CTE_car_body E self = Inr (xs, ys)"
    and "length wpts < 4 \<or> card (set xs) \<le> 1"
    and "wheel_radius self * vehicle_mass self \<noteq> 0"
  shows "(\<forall>e. F xs ys 3 = Inl e \<longrightarrow>
            Compute_CTE E F self = Inl e \<and> loop_body E F C now self = Inl e) \<and>
         (\<forall>a b c d throttle brake steering ctrl.
            F xs ys 3 = Inr [Fin a, Fin b, Fin c, Fin d] \<and>
            C (controller self) (vec_x (twist_linear tc)) (vec_z (twist_angular tc))
              (vec_x (twist_linear cv)) (vec_z (twist_angular cv)) (Fin (max (- 5) (min 5 d)))
              (vec_z (twist_angular tc)) (dbw_enabled self) = ((throttle, brake, steering), ctrl)
            \<longrightarrow>
            Compute_CTE E F self =
              Inr (Fin (max (- 5) (min 5 d)),
                   Fin (max (- (pi / 2)) (min (pi / 2) (atan2 c 1)))) \<and>
            cmds_of (loop_body E F C now self) =
              (if dbw_enabled self
               then publish (self\<lparr>brake_prev := brake_new self\<rparr>) throttle brake steering
               else [])) \<and>
         (\<forall>a b c d. F xs ys 3 = Inr [a, b, c, d] \<longrightarrow>
            (\<exists>cte heading. Compute_CTE E F self = Inr (cte, heading) \<and>
               (\<forall>throttle brake steering ctrl.
                  C (controller self) (vec_x (twist_linear tc)) (vec_z (twist_angular tc))
                    (vec_x (twist_linear cv)) (vec_z (twist_angular cv)) cte
                    (vec_z (twist_angular tc)) (dbw_enabled self) =
                    ((throttle, brake, steering), ctrl) \<longrightarrow>
                  cmds_of (loop_body E F C now self) =
                    (if dbw_enabled self
                     then publish (self\<lparr>brake_prev := brake_new self\<rparr>) throttle brake steering
                     else []))))"
proof (intro conjI allI impI)
  fix e assume "F xs ys 3 = Inl e"
  with assms(4) show cte: "Compute_CTE E F self = Inl e"
    by (simp add: Compute_CTE_def)
  with assms(1-3) show "loop_body E F C now self = Inl e"
    by (simp add: loop_body_def)
next
  fix a b c d throttle brake steering ctrl
  assume h: "F xs ys 3 = Inr [Fin a, Fin b, Fin c, Fin d] \<and>
            C (controller self) (vec_x (twist_linear tc)) (vec_z (twist_angular tc))
              (vec_x (twist_linear cv)) (vec_z (twist_angular cv)) (Fin (max (- 5) (min 5 d)))
              (vec_z (twist_angular tc)) (dbw_enabled self) = ((throttle, brake, steering), ctrl)"
  from assms(4) h show cte: "Compute_CTE E F self =
      Inr (Fin (max (- 5) (min 5 d)), Fin (max (- (pi / 2)) (min (pi / 2) (atan2 c 1))))"
    by (intro Compute_CTE_finite_fit) auto
  from loop_body_runs
    [where C = C and now = now, OF assms(1-3) cte conjunct2 [OF h] assms(6) refl]
  show "cmds_of (loop_body E F C now self) =
      (if dbw_enabled self
       then publish (self\<lparr>brake_prev := brake_new self\<rparr>) throttle brake steering
       else [])"
    by (simp add: cmds_of_def)
next
  fix a b c d
  assume "F xs ys 3 = Inr [a, b, c, d]"
  with assms(4) obtain cte heading where cte: "Compute_CTE E F self = Inr (cte, heading)"
    using Compute_CTE_returns by blast
  have "cmds_of (loop_body E F C now self) =
      (if dbw_enabled self
       then publish (self\<lparr>brake_prev := brake_new self\<rparr>) throttle brake steering
       else [])"
    if "C (controller self) (vec_x (twist_linear tc)) (vec_z (twist_angular tc))
          (vec_x (twist_linear cv)) (vec_z (twist_angular cv)) cte
          (vec_z (twist_angular tc)) (dbw_enabled self) = ((throttle, brake, steering), ctrl)"
    for throttle brake steering ctrl
    using loop_body_runs [where C = C and now = now, OF assms(1-3) cte that assms(6) refl]
    by (simp add: cmds_of_def)
  with cte show "\<exists>cte heading. Compute_CTE E F self = Inr (cte, heading) \<and>
     (\<forall>throttle brake steering ctrl.
        C (controller self) (vec_x (twist_linear tc)) (vec_z (twist_angular tc))
          (vec_x (twist_linear cv)) (vec_z (twist_angular cv)) cte
          (vec_z (twist_angular tc)) (dbw_enabled self) =
          ((throttle, brake, steering), ctrl) \<longrightarrow>
        cmds_of (loop_body E F C now self) =
          (if dbw_enabled self
           then publish (self\<lparr>brake_prev := brake_new self\<rparr>) throttle brake steering
           else []))"
    by blast
qed

text \<open>
  One waypoint ahead, for which the zero cubic is a least-squares fit: the pass
  publishes. No waypoint at all: the fit raises \<^verbatim>\<open>TypeError\<close>, and so does the pass.
\<close>

theorem short_path_is_fitted_witness:
  "Compute_CTE yaw_zero (fit_const [0, 0, 0, 0]) (enabled one_ahead) = Inr (Fin 0, Fin 0) \<and>
   cmds_of (loop_body yaw_zero (fit_const [0, 0, 0, 0]) (control_const (1 / 2) 100 (1 / 10)) 1
      (enabled one_ahead)) = [ThrottleCmd (1 / 2), SteeringCmd (1 / 10), BrakeCmd 100] \<and>
   Compute_CTE yaw_zero (fit_const [0, 0, 0, 0]) (enabled []) = Inl TypeError \<and>
   loop_body yaw_zero (fit_const [0, 0, 0, 0]) (control_const (1 / 2) 100 (1 / 10)) 1
      (enabled []) = Inl TypeError"
proof -
  have one: "finalwpts (enabled one_ahead) = Some one_ahead"
    "current_velocity (enabled one_ahead) = Some (twist_of 3 0)"
    "twist_cmd (enabled one_ahead) = Some (twist_of 5 0)"
    "length one_ahead < 4 \<or> card (set [1 :: real]) \<le> 1"
    "wheel_radius (enabled one_ahead) * vehicle_mass (enabled one_ahead) \<noteq> 0"
    by (simp_all add: input_defs)
  have none: "finalwpts (enabled []) = Some []"
    "current_velocity (enabled []) = Some (twist_of 3 0)"
    "twist_cmd (enabled []) = Some (twist_of 5 0)"
    "length ([] :: Waypoint list) < 4 \<or> card (set ([] :: real list)) \<le> 1"
    "wheel_radius (enabled []) * vehicle_mass (enabled []) \<noteq> 0"
    by (simp_all add: input_defs)
  from short_path_is_fitted
    [where F = "fit_const [0, 0, 0, 0]" and C = "control_const (1 / 2) 100 (1 / 10)"
       and now = 1, OF one(1-3) car_body_one_ahead one(4,5),
     THEN conjunct2, THEN conjunct1, rule_format, of 0 0 0 0 "1 / 2" 100 "1 / 10" "()"]
  have "Compute_CTE yaw_zero (fit_const [0, 0, 0, 0]) (enabled one_ahead) = Inr (Fin 0, Fin 0) \<and>
    cmds_of (loop_body yaw_zero (fit_const [0, 0, 0, 0]) (control_const (1 / 2) 100 (1 / 10)) 1
      (enabled one_ahead)) = [ThrottleCmd (1 / 2), SteeringCmd (1 / 10), BrakeCmd 100]"
    by (simp add: fit_const_def fit_floats_def control_const_def atan2_1 publish_def input_defs)
  moreover
  from short_path_is_fitted
    [where F = "fit_const [0, 0, 0, 0]" and C = "control_const (1 / 2) 100 (1 / 10)"
       and now = 1, OF none(1-3) car_body_no_waypoint none(4,5),
     THEN conjunct1, rule_format, of TypeError]
  have "Compute_CTE yaw_zero (fit_const [0, 0, 0, 0]) (enabled []) = Inl TypeError \<and>
   loop_body yaw_zero (fit_const [0, 0, 0, 0]) (control_const (1 / 2) 100 (1 / 10)) 1
      (enabled []) = Inl TypeError"
    by (simp add: fit_const_def fit_floats_def)
  ultimately show ?thesis by simp
qed

text \<open>
  C3 as stated fails on the path with one waypoint: the estimator returns \<open>(0, 0)\<close>, no
  error, and the enabled pass publishes on the three channels.
\<close>

theorem short_path_counterexample:
  "length one_ahead < 4 \<and>
   least_squares [1] [0] [0, 0, 0, 0] \<and>
   Compute_CTE yaw_zero (fit_const [0, 0, 0, 0]) (enabled one_ahead) = Inr (Fin 0, Fin 0) \<and>
   cmds_of (loop_body yaw_zero (fit_const [0, 0, 0, 0]) (control_const (1 / 2) 100 (1 / 10)) 1
      (enabled one_ahead)) = [ThrottleCmd (1 / 2), SteeringCmd (1 / 10), BrakeCmd 100]"
proof -
  have "least_squares [1] [0] [0, 0, 0, 0]"
    by (rule least_squares_exact) (simp_all add: polyval_def)
  then show ?thesis
    by (simp add: input_defs stub_defs node_defs cmds_of_def)
qed

section \<open>The enable flag and the time step\<close>

text \<open>
  C7. A pass with \<^verbatim>\<open>dbw_enabled\<close> false publishes nothing, whatever the controller
  returned; and when its body runs, the previous brake, the previous velocity and the
  previous time still advance.
\<close>

theorem disabled_pass_publishes_nothing:
  assumes "\<not> dbw_enabled self"
  shows "cmds_of (loop_body E F C now self) = [] \<and>
     (finalwpts self = Some wpts \<and> current_velocity self = Some cv \<and>
      twist_cmd self = Some tc \<and> Compute_CTE E F self = Inr (cte, heading) \<and>
      C (controller self) (vec_x (twist_linear tc)) (vec_z (twist_angular tc))
        (vec_x (twist_linear cv)) (vec_z (twist_angular cv)) cte
        (vec_z (twist_angular tc)) (dbw_enabled self) = ((throttle, brake, steering), ctrl) \<and>
      wheel_radius self * vehicle_mass self \<noteq> 0 \<longrightarrow>
      (\<exists>p. loop_body E F C now self = Inr p \<and> published p = [] \<and>
           brake_prev (node p) = brake_new self \<and> brake_new (node p) = brake \<and>
           current_velocity_prev (node p) = current_velocity_new self \<and>
           current_velocity_new (node p) = vec_x (twist_linear cv) \<and>
           prevtime (node p) = now))"
proof (intro conjI impI)
  show "cmds_of (loop_body E F C now self) = []"
    using assms by (rule loop_body_disabled)
next
  assume h: "finalwpts self = Some wpts \<and> current_velocity self = Some cv \<and>
      twist_cmd self = Some tc \<and> Compute_CTE E F self = Inr (cte, heading) \<and>
      C (controller self) (vec_x (twist_linear tc)) (vec_z (twist_angular tc))
        (vec_x (twist_linear cv)) (vec_z (twist_angular cv)) cte
        (vec_z (twist_angular tc)) (dbw_enabled self) = ((throttle, brake, steering), ctrl) \<and>
      wheel_radius self * vehicle_mass self \<noteq> 0"
  note runs =
    loop_body_runs [where E = E and F = F and C = C and now = now and self = self
      and wpts = wpts and cv = cv and tc = tc and cte = cte and heading = heading
      and throttle = throttle and brake = brake and steering = steering and ctrl = ctrl,
      OF _ _ _ _ _ _ refl]
  from h have "loop_body E F C now self = Inr (projr (loop_body E F C now self))"
    and "published (projr (loop_body E F C now self)) = []"
    and "node (projr (loop_body E F C now self)) =
      self\<lparr>CTE := cte, heading_err := heading, controller := ctrl,
           brake_prev := brake_new self, brake_new := brake,
           current_velocity_prev := current_velocity_new self,
           current_velocity_new := vec_x (twist_linear cv), prevtime := now\<rparr>"
    using assms by (simp_all add: runs)
  then show "\<exists>p. loop_body E F C now self = Inr p \<and> published p = [] \<and>
           brake_prev (node p) = brake_new self \<and> brake_new (node p) = brake \<and>
           current_velocity_prev (node p) = current_velocity_new self \<and>
           current_velocity_new (node p) = vec_x (twist_linear cv) \<and>
           prevtime (node p) = now"
    by (intro exI [of _ "projr (loop_body E F C now self)"]) simp
qed

theorem disabled_pass_publishes_nothing_witness:
  "\<not> dbw_enabled taken_over \<and>
   (\<exists>p. loop_body yaw_zero (fit_const [0, 0, 0, 0]) (control_const (1 / 2) 100 (1 / 10)) 11
          taken_over = Inr p \<and> published p = [] \<and>
        brake_prev (node p) = 40 \<and> brake_new (node p) = 100 \<and>
        current_velocity_prev (node p) = 2 \<and> current_velocity_new (node p) = 3 \<and>
        prevtime (node p) = 11)"
proof -
  have off: "\<not> dbw_enabled taken_over" by (simp add: input_defs)
  have inputs: "finalwpts taken_over = Some straight_ahead \<and>
    current_velocity taken_over = Some (twist_of 3 0) \<and>
    twist_cmd taken_over = Some (twist_of 5 0) \<and>
    Compute_CTE yaw_zero (fit_const [0, 0, 0, 0]) taken_over = Inr (Fin 0, Fin 0) \<and>
    control_const (1 / 2) 100 (1 / 10) (controller taken_over)
      (vec_x (twist_linear (twist_of 5 0))) (vec_z (twist_angular (twist_of 5 0)))
      (vec_x (twist_linear (twist_of 3 0))) (vec_z (twist_angular (twist_of 3 0))) (Fin 0)
      (vec_z (twist_angular (twist_of 5 0))) (dbw_enabled taken_over) =
      ((1 / 2, 100, 1 / 10), ()) \<and>
    wheel_radius taken_over * vehicle_mass taken_over \<noteq> 0"
    using Compute_CTE_straight_ahead(2) by (simp add: control_const_def input_defs)
  from disabled_pass_publishes_nothing
    [where C = "control_const (1 / 2) 100 (1 / 10)" and now = 11, OF off,
     THEN conjunct2, THEN mp, OF inputs]
  obtain p where p: "loop_body yaw_zero (fit_const [0, 0, 0, 0])
        (control_const (1 / 2) 100 (1 / 10)) 11 taken_over = Inr p" "published p = []"
     "brake_prev (node p) = brake_new taken_over" "brake_new (node p) = 100"
     "current_velocity_prev (node p) = current_velocity_new taken_over"
     "current_velocity_new (node p) = vec_x (twist_linear (twist_of 3 0))"
     "prevtime (node p) = 11"
    by blast
  from p(3,5,6) have "brake_prev (node p) = 40" "current_velocity_prev (node p) = 2"
    "current_velocity_new (node p) = 3"
    by (simp_all add: input_defs)
  with off p(1,2,4,7) show ?thesis by blast
qed

text \<open>
  C9. When the time since the previous pass is below one millisecond, the deceleration
  estimate divides by \<open>0.1\<close> instead; and the commands a pass publishes do not depend on
  the time of the pass at all.
\<close>

theorem dt_floor:
  assumes "finalwpts self = Some wpts" and "current_velocity self = Some cv"
    and "twist_cmd self = Some tc"
    and "Compute_CTE E F self = Inr (cte, heading)"
    and "C (controller self) (vec_x (twist_linear tc)) (vec_z (twist_angular tc))
           (vec_x (twist_linear cv)) (vec_z (twist_angular cv)) cte
           (vec_z (twist_angular tc)) (dbw_enabled self) = ((throttle, brake, steering), ctrl)"
    and "wheel_radius self * vehicle_mass self \<noteq> 0"
    and "now - prevtime self < 1 / 1000"
  shows "\<exists>p. loop_body E F C now self = Inr p \<and>
     locals p = Some (1 / 10,
                      (vec_x (twist_linear cv) - current_velocity_new self) / (1 / 10),
                      - brake_new self / (wheel_radius self * vehicle_mass self)) \<and>
     (\<forall>now'. cmds_of (loop_body E F C now' self) = published p)"
proof -
  note runs = loop_body_runs [where C = C, OF assms(1-6) refl]
  from assms(7) have "locals (projr (loop_body E F C now self)) = Some (1 / 10,
                      (vec_x (twist_linear cv) - current_velocity_new self) / (1 / 10),
                      - brake_new self / (wheel_radius self * vehicle_mass self))"
    by (simp add: runs)
  moreover have "cmds_of (loop_body E F C now' self) =
      published (projr (loop_body E F C now self))" for now'
    by (simp add: runs cmds_of_def)
  moreover have "loop_body E F C now self = Inr (projr (loop_body E F C now self))"
    by (simp add: runs)
  ultimately show ?thesis by blast
qed

text \<open>A measured step of \<open>0.0005\<close> seconds.\<close>

theorem dt_floor_witness:
  "20001 / 2000 - prevtime driving < 1 / 1000 \<and>
   (\<exists>p. loop_body yaw_zero (fit_const [0, 0, 0, 0]) (control_const (1 / 2) 100 (1 / 10))
          (20001 / 2000) driving = Inr p \<and>
        locals p = Some (1 / 10, 10, - 40 / (2413 / 10000 * (173635 / 100))) \<and>
        published p = [ThrottleCmd (1 / 2), SteeringCmd (1 / 10), BrakeCmd 100])"
proof -
  have small: "20001 / 2000 - prevtime driving < 1 / 1000" by (simp add: input_defs)
  have inputs: "finalwpts driving = Some straight_ahead"
    "current_velocity driving = Some (twist_of 3 0)"
    "twist_cmd driving = Some (twist_of 5 0)"
    "wheel_radius driving * vehicle_mass driving \<noteq> 0"
    by (simp_all add: input_defs)
  have ctrl: "control_const (1 / 2) 100 (1 / 10) (controller driving)
      (vec_x (twist_linear (twist_of 5 0))) (vec_z (twist_angular (twist_of 5 0)))
      (vec_x (twist_linear (twist_of 3 0))) (vec_z (twist_angular (twist_of 3 0))) (Fin 0)
      (vec_z (twist_angular (twist_of 5 0))) (dbw_enabled driving) =
      ((1 / 2, 100, 1 / 10), ())"
    by (simp add: control_const_def)
  from dt_floor [where C = "control_const (1 / 2) 100 (1 / 10)",
      OF inputs(1-3) Compute_CTE_straight_ahead(1) ctrl inputs(4) small]
  obtain p where p: "loop_body yaw_zero (fit_const [0, 0, 0, 0])
        (control_const (1 / 2) 100 (1 / 10)) (20001 / 2000) driving = Inr p"
     "locals p = Some (1 / 10, (vec_x (twist_linear (twist_of 3 0)) - current_velocity_new driving) / (1 / 10),
                      - brake_new driving / (wheel_radius driving * vehicle_mass driving))"
    by blast
  from p(2) have "locals p = Some (1 / 10, 10, - 40 / (2413 / 10000 * (173635 / 100)))"
    by (simp add: input_defs)
  moreover from p(1) have "published p = [ThrottleCmd (1 / 2), SteeringCmd (1 / 10), BrakeCmd 100]"
    by (auto simp add: input_defs stub_defs node_defs)
  ultimately show ?thesis using small p(1) by blast
qed

text \<open>
  C10. The flag is false after \<^verbatim>\<open>__init__\<close>, and as long as no message arrives on
  \<^verbatim>\<open>/vehicle/dbw_enabled\<close> the loop publishes nothing, however many passes it makes and
  whatever else is received.
\<close>

theorem never_enabled_never_publishes:
  assumes "\<forall>ev\<in>set evs. \<forall>b. ev \<noteq> Dbw_enabled b"
  shows "\<not> dbw_enabled (DBWNode_init mass radius ctrl t0) \<and>
         fst (loop E F C evs (DBWNode_init mass radius ctrl t0)) = []"
proof -
  have "\<not> dbw_enabled (DBWNode_init mass radius ctrl t0)" by (simp add: DBWNode_init_def)
  moreover from assms have "\<forall>ev\<in>set evs. ev \<noteq> Dbw_enabled True" by blast
  ultimately show ?thesis by (simp add: loop_disabled)
qed

text \<open>Two passes with every other input received: both run, neither publishes.\<close>

theorem never_enabled_never_publishes_witness:
  "fst (loop yaw_zero (fit_const [0, 0, 0, 0]) (control_const (1 / 2) 100 (1 / 10))
         (all_inputs straight_ahead @ [Tick 1, Tick 2]) node0) = [] \<and>
   (case snd (loop yaw_zero (fit_const [0, 0, 0, 0]) (control_const (1 / 2) 100 (1 / 10))
         (all_inputs straight_ahead @ [Tick 1, Tick 2]) node0) of
      Inl e \<Rightarrow> False
    | Inr self \<Rightarrow> brake_prev self = 100 \<and> brake_new self = 100 \<and> prevtime self = 2)"
proof -
  have "\<forall>ev\<in>set (all_inputs straight_ahead @ [Tick 1, Tick 2]). \<forall>b. ev \<noteq> Dbw_enabled b"
    by (simp add: all_inputs_def)
  from never_enabled_never_publishes [OF this, of "173635 / 100" "2413 / 10000" "()" 0 yaw_zero "fit_const [0, 0, 0, 0]"
      "control_const (1 / 2) 100 (1 / 10)"]
  have "fst (loop yaw_zero (fit_const [0, 0, 0, 0]) (control_const (1 / 2) 100 (1 / 10))
         (all_inputs straight_ahead @ [Tick 1, Tick 2]) node0) = []"
    by (simp add: node0_def)
  moreover have "case snd (loop yaw_zero (fit_const [0, 0, 0, 0]) (control_const (1 / 2) 100 (1 / 10))
         (all_inputs straight_ahead @ [Tick 1, Tick 2]) node0) of
      Inl e \<Rightarrow> False
    | Inr self \<Rightarrow> brake_prev self = 100 \<and> brake_new self = 100 \<and> prevtime self = 2"
    by (simp add: input_defs stub_defs node_defs)
  ultimately show ?thesis by simp
qed

end
